theory Spec2Isabelle
  imports
    Complex_Main
    "HOL-Library.Log_Nat"
begin

section \<open>Numbers and errors\<close>

text \<open>
  The formulas of the engine, of the generator and of the trainer are read with exact
  arithmetic: a Python float is a real, and the integers that the web layer passes in
  (capacity, run hours, current fuel use) are embedded in the reals, as Python does when
  it mixes them with floats. The rows of the forecast are fixed digit by digit by the
  binary64 arithmetic of the interpreter, so the forecast path is read a second time with
  every result rounded as the hardware rounds it.
\<close>

datatype py_error = SystemExit int | RuntimeError

text \<open>\<^verbatim>\<open>int(x)\<close> on a float: truncation toward zero.\<close>

definition py_int :: "real \<Rightarrow> int" where
  "py_int x = (if 0 \<le> x then \<lfloor>x\<rfloor> else \<lceil>x\<rceil>)"

text \<open>The nearest integer, a tie going to the even one.\<close>

definition round_half_even :: "real \<Rightarrow> int" where
  "round_half_even x =
     (let f = \<lfloor>x\<rfloor>; d = x - of_int f
      in if d < 1 / 2 then f else if 1 / 2 < d then f + 1 else if even f then f else f + 1)"

text \<open>
  A binary64 float has 53 significant bits. \<open>expo x\<close> is the exponent \<open>e\<close> with
  \<open>2^e \<le> |x| < 2^(e+1)\<close>, and \<open>binary64 x\<close> is the double nearest to \<open>x\<close>, a tie going to
  the even significand: \<open>x\<close> rounded to a multiple of \<open>2^(e-52)\<close>, of \<open>2^-1074\<close> in the
  subnormal range. This is the result of one float operation whose exact result is \<open>x\<close>,
  of reading the literal \<open>x\<close> and of converting the integer \<open>x\<close> to a float. Results of
  magnitude \<open>2^1024\<close> and more (\<^verbatim>\<open>inf\<close>, \<^verbatim>\<open>OverflowError\<close>) are outside the model.
\<close>

definition expo :: "real \<Rightarrow> int" where
  "expo x =
     (if 1 \<le> \<bar>x\<bar> then bitlen \<lfloor>\<bar>x\<bar>\<rfloor> - 1 else - bitlen (\<lceil>1 / \<bar>x\<bar>\<rceil> - 1))"

definition binary64 :: "real \<Rightarrow> real" where
  "binary64 x =
     (if x = 0 then 0
      else (let u = 2 powi (max (expo x) (- 1022) - 52)
            in of_int (round_half_even (x / u)) * u))"

section \<open>predict\_user.py: inference and savings\<close>

text \<open>
  A persisted model is a regressor from the feature row
  \<^verbatim>\<open>[max_capacity_mw, run_hours, temp_C, humidity_%, pressure_hPa]\<close> to a generation
  figure. The model store maps a fuel type to the model that \<^verbatim>\<open>joblib.load\<close> returns
  for \<^verbatim>\<open>model_<fuel>.joblib\<close>; \<open>None\<close> stands for a load that raises.
\<close>

type_synonym trained_model = "real list \<Rightarrow> real"

type_synonym model_store = "string \<rightharpoonup> trained_model"

text \<open>The dictionary \<^verbatim>\<open>input_data\<close> with its seven keys.\<close>

record input_data =
  fuel_type :: string
  max_capacity_mw :: real
  run_hours :: real
  fuel_used_current :: real
  temp_C :: real
  humidity :: real
  pressure_hPa :: real

text \<open>The dictionary \<^verbatim>\<open>outputs\<close> that \<^verbatim>\<open>predict_outputs\<close> returns.\<close>

record outputs =
  recommended_generation_mw :: real
  fuel_used_recommended :: real
  fuel_saved :: real
  cost_saved :: real
  co2_saved_tonnes :: real
  recommended_efficiency :: real

text \<open>\<^verbatim>\<open>{"coal": 0.38, "oil": 0.42, "natural_gas": 0.50}.get(fuel_type, 0.40)\<close>
  and the three other coefficient tables, each with its default.\<close>

definition dict_get :: "(string \<times> real) list \<Rightarrow> string \<Rightarrow> real \<Rightarrow> real" where
  "dict_get d k dflt = (case map_of d k of Some v \<Rightarrow> v | None \<Rightarrow> dflt)"

definition base_eff_map :: "(string \<times> real) list" where
  "base_eff_map = [(''coal'', 0.38), (''oil'', 0.42), (''natural_gas'', 0.50)]"

definition fuel_per_kwh_map :: "(string \<times> real) list" where
  "fuel_per_kwh_map = [(''coal'', 0.35), (''oil'', 0.25), (''natural_gas'', 0.20)]"

definition fuel_cost_map :: "(string \<times> real) list" where
  "fuel_cost_map = [(''coal'', 6000), (''oil'', 700), (''natural_gas'', 300)]"

definition co2_factor_map :: "(string \<times> real) list" where
  "co2_factor_map = [(''coal'', 2.42), (''oil'', 2.96), (''natural_gas'', 2.0)]"

definition calc_recommended_efficiency :: "string \<Rightarrow> real \<Rightarrow> real \<Rightarrow> real \<Rightarrow> real" where
  "calc_recommended_efficiency ft t h p =
     (let base_eff = dict_get base_eff_map ft 0.40;
          temp_factor = 1 - 0.002 * (t - 25);
          humidity_factor = 1 - 0.001 * (h - 40);
          pressure_factor = 1 + 0.0005 * (p - 1013.25)
      in base_eff * temp_factor * humidity_factor * pressure_factor)"

text \<open>
  Lines 59 to 70 of \<^verbatim>\<open>predict_outputs\<close>: load the model, or fall back to the
  \<^verbatim>\<open>DummyModel\<close> whose \<^verbatim>\<open>predict\<close> returns \<^verbatim>\<open>[max_capacity_mw * 0.7]\<close>, then predict on
  the feature row.
\<close>

definition DummyModel :: "input_data \<Rightarrow> trained_model" where
  "DummyModel inp = (\<lambda>X. max_capacity_mw inp * 0.7)"

definition load_model :: "model_store \<Rightarrow> input_data \<Rightarrow> trained_model" where
  "load_model store inp =
     (case store (fuel_type inp) of Some m \<Rightarrow> m | None \<Rightarrow> DummyModel inp)"

definition features :: "input_data \<Rightarrow> real list" where
  "features inp =
     [max_capacity_mw inp, run_hours inp, temp_C inp, humidity inp, pressure_hPa inp]"

definition current_generation_mw :: "model_store \<Rightarrow> input_data \<Rightarrow> real" where
  "current_generation_mw store inp = load_model store inp (features inp)"

text \<open>
  The rest of \<^verbatim>\<open>predict_outputs\<close>. The prediction is computed first, as in the
  source, and no later line reads it.
\<close>

definition predict_outputs :: "model_store \<Rightarrow> input_data \<Rightarrow> outputs" where
  "predict_outputs store inp =
     (let ft = fuel_type inp;
          current_generation = current_generation_mw store inp;
          max_capacity = max_capacity_mw inp;
          hours = run_hours inp;
          used_current = fuel_used_current inp;
          rec_eff = calc_recommended_efficiency ft (temp_C inp) (humidity inp) (pressure_hPa inp);
          rec_gen = max_capacity * rec_eff;
          rec_energy_kwh = rec_gen * 1000 * hours;
          fuel_per_kwh = dict_get fuel_per_kwh_map ft 0.3;
          used_recommended = rec_energy_kwh * fuel_per_kwh / 1000;
          saved = used_current - used_recommended;
          fuel_cost_per_unit = dict_get fuel_cost_map ft 500;
          cost = saved * fuel_cost_per_unit;
          co2_factor = dict_get co2_factor_map ft 2.5;
          co2 = saved * co2_factor
      in \<lparr> recommended_generation_mw = rec_gen,
           fuel_used_recommended = used_recommended,
           fuel_saved = saved,
           cost_saved = cost,
           co2_saved_tonnes = co2,
           recommended_efficiency = rec_eff \<rparr>)"

text \<open>
  The same two functions with the arithmetic of the interpreter: \<open>rnd\<close> is applied to
  every float literal, to every number that enters from the input dictionary and to the
  result of every operation, in the order in which Python evaluates the expressions
  (products from left to right). With \<open>rnd\<close> the identity these are the two definitions
  above; with \<open>rnd = binary64\<close> they compute the floats that the code computes.
\<close>

definition calc_recommended_efficiency_r ::
    "(real \<Rightarrow> real) \<Rightarrow> string \<Rightarrow> real \<Rightarrow> real \<Rightarrow> real \<Rightarrow> real" where
  "calc_recommended_efficiency_r rnd ft t h p =
     (let base_eff = rnd (dict_get base_eff_map ft 0.40);
          temp_factor = rnd (1 - rnd (rnd 0.002 * rnd (rnd t - 25)));
          humidity_factor = rnd (1 - rnd (rnd 0.001 * rnd (rnd h - 40)));
          pressure_factor = rnd (1 + rnd (rnd 0.0005 * rnd (rnd p - rnd 1013.25)))
      in rnd (rnd (rnd (base_eff * temp_factor) * humidity_factor) * pressure_factor))"

definition predict_outputs_r :: "(real \<Rightarrow> real) \<Rightarrow> model_store \<Rightarrow> input_data \<Rightarrow> outputs" where
  "predict_outputs_r rnd store inp =
     (let ft = fuel_type inp;
          current_generation = current_generation_mw store inp;
          max_capacity = rnd (max_capacity_mw inp);
          hours = rnd (run_hours inp);
          used_current = rnd (fuel_used_current inp);
          rec_eff = calc_recommended_efficiency_r rnd ft (temp_C inp) (humidity inp)
                      (pressure_hPa inp);
          rec_gen = rnd (max_capacity * rec_eff);
          rec_energy_kwh = rnd (rnd (rec_gen * 1000) * hours);
          fuel_per_kwh = rnd (dict_get fuel_per_kwh_map ft 0.3);
          used_recommended = rnd (rnd (rec_energy_kwh * fuel_per_kwh) / 1000);
          saved = rnd (used_current - used_recommended);
          fuel_cost_per_unit = rnd (dict_get fuel_cost_map ft 500);
          cost = rnd (saved * fuel_cost_per_unit);
          co2_factor = rnd (dict_get co2_factor_map ft 2.5);
          co2 = rnd (saved * co2_factor)
      in \<lparr> recommended_generation_mw = rec_gen,
           fuel_used_recommended = used_recommended,
           fuel_saved = saved,
           cost_saved = cost,
           co2_saved_tonnes = co2,
           recommended_efficiency = rec_eff \<rparr>)"

definition predict_outputs_f64 :: "model_store \<Rightarrow> input_data \<Rightarrow> outputs" where
  "predict_outputs_f64 = predict_outputs_r binary64"

text \<open>
  \<^verbatim>\<open>f2(no) = int(no*100)/100\<close> on a float: the product is rounded to a double, \<^verbatim>\<open>int\<close>
  cuts it toward zero, and the quotient of the integer by 100 is rounded to a double.
\<close>

definition f2 :: "real \<Rightarrow> real" where
  "f2 no = binary64 (of_int (py_int (binary64 (no * 100))) / 100)"

text \<open>A forecast day as \<^verbatim>\<open>fetch_weather_forecast\<close> builds it, and a row of the list
  that \<^verbatim>\<open>func1\<close> returns.\<close>

record forecast_day =
  date :: string
  day_temp_C :: real
  day_humidity :: real
  day_pressure_hPa :: real

record sample_input =
  si_fuel_type :: string
  si_max_capacity_mw :: real
  si_run_hours :: real
  si_fuel_used_current :: real

record daily_outcome =
  out_date :: string
  out_generation :: real
  out_fuel_used :: real
  out_fuel_saved :: real
  out_cost_saved :: real
  out_co2_saved :: real
  out_efficiency :: real

text \<open>\<^verbatim>\<open>input_data = sample_input.copy()\<close> followed by the three assignments of the
  day's weather.\<close>

definition day_input :: "sample_input \<Rightarrow> forecast_day \<Rightarrow> input_data" where
  "day_input si day =
     \<lparr> fuel_type = si_fuel_type si,
       max_capacity_mw = si_max_capacity_mw si,
       run_hours = si_run_hours si,
       fuel_used_current = si_fuel_used_current si,
       temp_C = day_temp_C day,
       humidity = day_humidity day,
       pressure_hPa = day_pressure_hPa day \<rparr>"

text \<open>The row that the loop of \<^verbatim>\<open>func1\<close> appends for one day:
  \<^verbatim>\<open>[day['date'], f2(outputs['recommended_generation_mw']), ...]\<close>.\<close>

definition outcome_row :: "forecast_day \<Rightarrow> outputs \<Rightarrow> daily_outcome" where
  "outcome_row day out =
     \<lparr> out_date = date day,
       out_generation = f2 (recommended_generation_mw out),
       out_fuel_used = f2 (fuel_used_recommended out),
       out_fuel_saved = f2 (fuel_saved out),
       out_cost_saved = f2 (cost_saved out),
       out_co2_saved = f2 (co2_saved_tonnes out),
       out_efficiency = f2 (recommended_efficiency out) \<rparr>"

text \<open>The loop of \<^verbatim>\<open>func1\<close>: \<open>l\<close> is the list built so far, each day appends one row.\<close>

fun func1_loop :: "model_store \<Rightarrow> sample_input \<Rightarrow> forecast_day list \<Rightarrow> daily_outcome list
    \<Rightarrow> daily_outcome list" where
  "func1_loop store si [] l = l"
| "func1_loop store si (day # forecast) l =
     (let input = day_input si day;
          out = predict_outputs_f64 store input
      in func1_loop store si forecast (l @ [outcome_row day out]))"

text \<open>
  \<^verbatim>\<open>func1\<close>. The two network suppliers are parameters: \<open>gps\<close> is what
  \<^verbatim>\<open>get_gps_location()\<close> returns or raises, \<open>weather loc days\<close> what
  \<^verbatim>\<open>fetch_weather_forecast(lat, lon, days)\<close> returns or raises, \<open>loc\<close> being the pair
  \<open>(lat, lon)\<close>. A failed location falls
  back to Chennai; a failed forecast ends the process with \<^verbatim>\<open>exit(1)\<close>.
\<close>

definition location :: "(py_error + real \<times> real) \<Rightarrow> real \<times> real" where
  "location gps = (case gps of Inr loc \<Rightarrow> loc | Inl e \<Rightarrow> (13.0895, 80.2739))"

definition func1 :: "model_store \<Rightarrow> (py_error + real \<times> real)
    \<Rightarrow> (real \<times> real \<Rightarrow> nat \<Rightarrow> py_error + forecast_day list)
    \<Rightarrow> sample_input \<Rightarrow> py_error + daily_outcome list" where
  "func1 store gps weather si =
     (case weather (location gps) 7 of
        Inl e \<Rightarrow> Inl (SystemExit 1)
      | Inr forecast \<Rightarrow> Inr (func1_loop store si forecast []))"

text \<open>The module's own \<^verbatim>\<open>sample_input\<close> (coal, 150 MW, 20 hours, 9000 units of fuel).\<close>

definition sample_input0 :: sample_input where
  "sample_input0 =
     \<lparr> si_fuel_type = ''coal'', si_max_capacity_mw = 150, si_run_hours = 20,
       si_fuel_used_current = 9000 \<rparr>"

section \<open>generator.py: the synthetic data generator\<close>

text \<open>The column names that the module writes as the header line of the sample store.\<close>

definition HEADERS :: "string list" where
  "HEADERS =
     [''timestamp'', ''fuel_type'', ''max_capacity_mw'', ''current_generation_mw'',
      ''run_hours'', ''temp_C'', ''humidity_%'', ''pressure_hPa'', ''predicted_efficiency'',
      ''recommended_generation_mw'', ''adjustment_pct'', ''fuel_per_kwh'', ''fuel_unit'',
      ''heat_rate_kcal_per_kwh'', ''fuel_used_current'', ''fuel_used_recommended'',
      ''fuel_saved'', ''fuel_cost_per_unit'', ''cost_saved'', ''co2_saved_tonnes'']"

text \<open>
  \<^verbatim>\<open>round(x, n)\<close>: the nearest multiple of \<open>10^-n\<close>, a tie going to the even one.
\<close>

definition py_round :: "real \<Rightarrow> nat \<Rightarrow> real" where
  "py_round x n = of_int (round_half_even (x * 10 ^ n)) / 10 ^ n"

text \<open>One entry of \<^verbatim>\<open>self.fuel_types\<close>.\<close>

record fuel_config =
  efficiency_range :: "real \<times> real"
  heat_rate_range :: "real \<times> real"
  capacity_range :: "real \<times> real"
  temp_sensitivity :: real
  humidity_sensitivity :: real
  pressure_sensitivity :: real
  fuel_lhv :: real
  fuel_unit :: string
  fuel_cost_range :: "real \<times> real"
  co2_factor :: real
  density :: real

definition coal_config :: fuel_config where
  "coal_config =
     \<lparr> efficiency_range = (0.32, 0.46), heat_rate_range = (2000, 2600),
       capacity_range = (200, 800), temp_sensitivity = 0.0018,
       humidity_sensitivity = 0.0008, pressure_sensitivity = 0.0006, fuel_lhv = 7000,
       fuel_unit = ''kg'', fuel_cost_range = (5000, 7000), co2_factor = 2.42,
       density = 1.0 \<rparr>"

definition oil_config :: fuel_config where
  "oil_config =
     \<lparr> efficiency_range = (0.36, 0.42), heat_rate_range = (2100, 2400),
       capacity_range = (100, 400), temp_sensitivity = 0.0015,
       humidity_sensitivity = 0.0007, pressure_sensitivity = 0.0005, fuel_lhv = 10000,
       fuel_unit = ''liters'', fuel_cost_range = (600, 900), co2_factor = 2.96,
       density = 0.85 \<rparr>"

definition natural_gas_config :: fuel_config where
  "natural_gas_config =
     \<lparr> efficiency_range = (0.40, 0.60), heat_rate_range = (1430, 2150),
       capacity_range = (50, 600), temp_sensitivity = 0.0012,
       humidity_sensitivity = 0.0005, pressure_sensitivity = 0.0008, fuel_lhv = 8500,
       fuel_unit = ''Nm3'', fuel_cost_range = (200, 400), co2_factor = 2.0,
       density = 0.72 \<rparr>"

definition fuel_types :: "(string \<times> fuel_config) list" where
  "fuel_types =
     [(''coal'', coal_config), (''oil'', oil_config), (''natural_gas'', natural_gas_config)]"

text \<open>
  \<^verbatim>\<open>calculate_efficiency\<close> up to and including the line
  \<^verbatim>\<open>efficiency = max(min_eff, min(max_eff, efficiency))\<close>. The timestamp enters through
  \<open>days_since_start\<close>, the whole days from 2020-01-01 to it.
\<close>

definition clipped_efficiency ::
    "fuel_config \<Rightarrow> real \<Rightarrow> real \<Rightarrow> real \<Rightarrow> real \<Rightarrow> int \<Rightarrow> real \<Rightarrow> real" where
  "clipped_efficiency config t h p hours days_since_start load_factor =
     (let base_efficiency = (fst (efficiency_range config) + snd (efficiency_range config)) / 2;
          load_factor_adj = 1 - \<bar>load_factor - 0.9\<bar> * 0.08;
          base_efficiency = base_efficiency * load_factor_adj;
          temp_factor = 1 - temp_sensitivity config * (t - 25);
          humidity_factor = 1 - humidity_sensitivity config * (h - 40);
          pressure_factor = 1 + pressure_sensitivity config * (p - 1013.25);
          hours_factor = (if hours < 4 then 0.95 else if hours < 8 then 0.98
                          else 1.0 + 0.00005 * (hours - 8));
          degradation_factor = 1 - (of_int days_since_start * 0.00005);
          efficiency = base_efficiency * temp_factor * humidity_factor * pressure_factor
                         * hours_factor * degradation_factor;
          (min_eff, max_eff) = efficiency_range config
      in max min_eff (min max_eff efficiency))"

text \<open>
  The last two lines of \<^verbatim>\<open>calculate_efficiency\<close>; \<open>noise\<close> is the value drawn by
  \<^verbatim>\<open>random.uniform(0.995, 1.005)\<close>.
\<close>

definition calculate_efficiency ::
    "fuel_config \<Rightarrow> real \<Rightarrow> real \<Rightarrow> real \<Rightarrow> real \<Rightarrow> int \<Rightarrow> real \<Rightarrow> real \<Rightarrow> real" where
  "calculate_efficiency config t h p hours days_since_start load_factor noise =
     py_round (clipped_efficiency config t h p hours days_since_start load_factor * noise) 4"

text \<open>
  What one pass of the inner loop of \<^verbatim>\<open>generate_realistic_data\<close> takes from the clock
  and from the random generator, in the order of the source: the timestamp and its day
  count, the capacity, the seasonal temperature (the result of
  \<^verbatim>\<open>get_seasonal_temperature\<close>), the humidity, the pressure offset, the run hours, the
  load factor, the efficiency noise and the fuel cost. The source draws the capacity and
  the fuel cost from the profile's ranges, the humidity from 30 to 70, the pressure offset
  from -10 to 10, the run hours from 12 to 24, the load factor from 0.6 to 1.0 and the
  noise from 0.995 to 1.005.
\<close>

record draws =
  d_timestamp_str :: string
  d_days_since_start :: int
  d_max_capacity_mw :: real
  d_temp_C :: real
  d_humidity :: real
  d_pressure_offset :: real
  d_run_hours :: int
  d_load_factor :: real
  d_noise :: real
  d_fuel_cost_per_unit :: real

text \<open>The fuel-specific branch: what the \<^verbatim>\<open>if\<close>/\<^verbatim>\<open>elif\<close> chain assigns.\<close>

record fuel_calc =
  fc_fuel_per_kwh :: real
  fc_fuel_used_current :: real
  fc_fuel_used_recommended :: real
  fc_fuel_unit :: string
  fc_co2_saved :: real

definition fuel_specific ::
    "string \<Rightarrow> fuel_config \<Rightarrow> real \<Rightarrow> real \<Rightarrow> real \<Rightarrow> int \<Rightarrow> fuel_calc option" where
  "fuel_specific ft config current_generation base_generation heat_rate hours =
     (if ft = ''coal'' then
        (let fuel_per_kwh = heat_rate / fuel_lhv config;
             used_current = (current_generation * 1000) * fuel_per_kwh * of_int hours / 1000;
             used_recommended = (base_generation * 1000) * fuel_per_kwh * of_int hours / 1000;
             co2_saved = (used_current - used_recommended) * co2_factor config
         in Some \<lparr> fc_fuel_per_kwh = fuel_per_kwh, fc_fuel_used_current = used_current,
                   fc_fuel_used_recommended = used_recommended, fc_fuel_unit = ''ton'',
                   fc_co2_saved = co2_saved \<rparr>)
      else if ft = ''oil'' then
        (let fuel_per_kwh = heat_rate / (fuel_lhv config * density config);
             used_current = (current_generation * 1000) * fuel_per_kwh * of_int hours / 1000;
             used_recommended = (base_generation * 1000) * fuel_per_kwh * of_int hours / 1000;
             used_current_tonnes = used_current * density config / 1000;
             used_recommended_tonnes = used_recommended * density config / 1000;
             co2_saved = (used_current_tonnes - used_recommended_tonnes) * co2_factor config
         in Some \<lparr> fc_fuel_per_kwh = fuel_per_kwh, fc_fuel_used_current = used_current,
                   fc_fuel_used_recommended = used_recommended, fc_fuel_unit = ''barrel'',
                   fc_co2_saved = co2_saved \<rparr>)
      else if ft = ''natural_gas'' then
        (let fuel_per_kwh = heat_rate / fuel_lhv config;
             used_current = (current_generation * 1000) * fuel_per_kwh * of_int hours / 1000;
             used_recommended = (base_generation * 1000) * fuel_per_kwh * of_int hours / 1000;
             co2_saved = (used_current - used_recommended) * co2_factor config / 1000
         in Some \<lparr> fc_fuel_per_kwh = fuel_per_kwh, fc_fuel_used_current = used_current,
                   fc_fuel_used_recommended = used_recommended, fc_fuel_unit = ''1000Nm3'',
                   fc_co2_saved = co2_saved \<rparr>)
      else None)"

text \<open>A row of the sample store, its twenty columns in the order of \<^verbatim>\<open>HEADERS\<close>.\<close>

record sample_row =
  row_timestamp :: string
  row_fuel_type :: string
  row_max_capacity_mw :: real
  row_current_generation_mw :: real
  row_run_hours :: int
  row_temp_C :: real
  row_humidity :: real
  row_pressure_hPa :: real
  row_predicted_efficiency :: real
  row_recommended_generation_mw :: real
  row_adjustment_pct :: real
  row_fuel_per_kwh :: real
  row_fuel_unit :: string
  row_heat_rate_kcal_per_kwh :: real
  row_fuel_used_current :: real
  row_fuel_used_recommended :: real
  row_fuel_saved :: real
  row_fuel_cost_per_unit :: real
  row_cost_saved :: real
  row_co2_saved_tonnes :: real

text \<open>
  The body of the inner loop of \<^verbatim>\<open>generate_realistic_data\<close> for one fuel type;
  \<open>None\<close> is the \<^verbatim>\<open>continue\<close> of the last \<^verbatim>\<open>else\<close>.
\<close>

definition generate_row :: "string \<Rightarrow> fuel_config \<Rightarrow> draws \<Rightarrow> sample_row option" where
  "generate_row ft config d =
     (let max_capacity = d_max_capacity_mw d;
          t = d_temp_C d;
          h = d_humidity d;
          p = 1013.25 + d_pressure_offset d;
          hours = d_run_hours d;
          load_factor = d_load_factor d;
          predicted_efficiency =
            calculate_efficiency config t h p (of_int hours) (d_days_since_start d)
              load_factor (d_noise d);
          base_generation = max_capacity * predicted_efficiency;
          current_generation = max_capacity * load_factor;
          heat_rate = 860 / predicted_efficiency
      in case fuel_specific ft config current_generation base_generation heat_rate hours of
           None \<Rightarrow> None
         | Some fc \<Rightarrow>
             (let adjustment_pct = (base_generation - current_generation) / max_capacity * 100;
                  saved = fc_fuel_used_current fc - fc_fuel_used_recommended fc;
                  cost = saved * d_fuel_cost_per_unit d
              in Some \<lparr> row_timestamp = d_timestamp_str d,
                        row_fuel_type = ft,
                        row_max_capacity_mw = py_round max_capacity 2,
                        row_current_generation_mw = py_round current_generation 3,
                        row_run_hours = hours,
                        row_temp_C = py_round t 2,
                        row_humidity = py_round h 2,
                        row_pressure_hPa = py_round p 2,
                        row_predicted_efficiency = predicted_efficiency,
                        row_recommended_generation_mw = py_round base_generation 3,
                        row_adjustment_pct = py_round adjustment_pct 2,
                        row_fuel_per_kwh = py_round (fc_fuel_per_kwh fc) 4,
                        row_fuel_unit = fc_fuel_unit fc,
                        row_heat_rate_kcal_per_kwh = py_round heat_rate 2,
                        row_fuel_used_current = py_round (fc_fuel_used_current fc) 4,
                        row_fuel_used_recommended = py_round (fc_fuel_used_recommended fc) 4,
                        row_fuel_saved = py_round saved 4,
                        row_fuel_cost_per_unit = py_round (d_fuel_cost_per_unit d) 2,
                        row_cost_saved = py_round cost 2,
                        row_co2_saved_tonnes = py_round (fc_co2_saved fc) 4 \<rparr>))"

text \<open>
  \<^verbatim>\<open>generate_realistic_data\<close>: for each of the \<open>num_samples\<close> timestamps, one row per
  fuel type of the table, in the table's order; \<open>draw i ft\<close> is what pass \<open>i\<close> draws for
  fuel type \<open>ft\<close>.
\<close>

definition generate_realistic_data :: "(nat \<Rightarrow> string \<Rightarrow> draws) \<Rightarrow> nat \<Rightarrow> sample_row list" where
  "generate_realistic_data draw num_samples =
     concat (map (\<lambda>i. List.map_filter (\<lambda>(ft, config). generate_row ft config (draw i ft))
                         fuel_types)
                 [0..<num_samples])"

section \<open>trainer.py: the training run\<close>

text \<open>
  The sample store \<^verbatim>\<open>plant_data.csv\<close>: absent, of size zero, or a header line and data
  rows. \<^verbatim>\<open>pd.read_csv\<close> returns the rows under the header's column names, and
  \<^verbatim>\<open>df.iloc[0:0].to_csv(CSV_FILE, index=False)\<close> writes those column names and no row.
\<close>

datatype csv_file = Absent | ZeroSize | Csv "string list" "sample_row list"

text \<open>The lines the trainer prints.\<close>

datatype message =
    NoData
  | Skipping string nat
  | Trained string real real
  | Cleared

text \<open>
  The scikit-learn calls are parameters of the run: \<open>train_test_split rows test_size
  random_state\<close> returns the train and the test part of the (features, label) rows,
  \<open>fit params rows\<close> the regressor fitted with the constructor's keyword arguments, and
  the two metrics take \<open>y_test\<close> and \<open>y_pred\<close>.
\<close>

record rf_params =
  n_estimators :: nat
  random_state :: nat
  n_jobs :: int
  max_depth :: nat

record sklearn =
  train_test_split ::
    "(real list \<times> real) list \<Rightarrow> real \<Rightarrow> nat \<Rightarrow> (real list \<times> real) list \<times> (real list \<times> real) list"
  fit :: "rf_params \<Rightarrow> (real list \<times> real) list \<Rightarrow> trained_model"
  r2_score :: "real list \<Rightarrow> real list \<Rightarrow> real"
  mean_absolute_error :: "real list \<Rightarrow> real list \<Rightarrow> real"

record world =
  csv :: csv_file
  models :: model_store
  console :: "message list"

text \<open>\<^verbatim>\<open>df['fuel_type'].unique()\<close>: the distinct values in order of first appearance.\<close>

fun unique :: "'a list \<Rightarrow> 'a list" where
  "unique [] = []"
| "unique (x # xs) = x # unique (filter (\<lambda>y. y \<noteq> x) xs)"

text \<open>\<^verbatim>\<open>fuel_df[FEATURES]\<close> and \<^verbatim>\<open>fuel_df["current_generation_mw"]\<close>, row by row.\<close>

definition FEATURES :: "sample_row \<Rightarrow> real list" where
  "FEATURES r =
     [row_max_capacity_mw r, of_int (row_run_hours r), row_temp_C r, row_humidity r,
      row_pressure_hPa r]"

definition rf_constructor :: rf_params where
  "rf_constructor = \<lparr> n_estimators = 200, random_state = 42, n_jobs = - 1, max_depth = 12 \<rparr>"

text \<open>The body of the loop over the fuel types of the data frame.\<close>

definition train_fuel :: "sklearn \<Rightarrow> sample_row list \<Rightarrow> world \<Rightarrow> string \<Rightarrow> world" where
  "train_fuel lib df w fuel =
     (let fuel_df = filter (\<lambda>r. row_fuel_type r = fuel) df
      in if length fuel_df < 5 then
           w\<lparr> console := console w @ [Skipping fuel (length fuel_df)] \<rparr>
         else
           (let Xy = map (\<lambda>r. (FEATURES r, row_current_generation_mw r)) fuel_df;
                (train, test) = train_test_split lib Xy 0.2 42;
                model = fit lib rf_constructor train;
                y_pred = map model (map fst test);
                r2 = r2_score lib (map snd test) y_pred;
                mae = mean_absolute_error lib (map snd test) y_pred
            in w\<lparr> console := console w @ [Trained fuel r2 mae],
                  models := (models w)(fuel \<mapsto> model) \<rparr>))"

text \<open>
  The whole script. A missing or empty sample store prints a line and ends the process
  with \<^verbatim>\<open>exit()\<close>; otherwise the loop runs over the fuel types present and the store is
  then rewritten with its header alone.
\<close>

definition train_loop :: "sklearn \<Rightarrow> sample_row list \<Rightarrow> world \<Rightarrow> world" where
  "train_loop lib df w = foldl (train_fuel lib df) w (unique (map row_fuel_type df))"

definition clear_csv :: "string list \<Rightarrow> world \<Rightarrow> world" where
  "clear_csv header w = w\<lparr> csv := Csv header [], console := console w @ [Cleared] \<rparr>"

definition train :: "sklearn \<Rightarrow> world \<Rightarrow> (py_error \<times> world) + world" where
  "train lib w =
     (case csv w of
        Absent \<Rightarrow> Inl (SystemExit 0, w\<lparr> console := console w @ [NoData] \<rparr>)
      | ZeroSize \<Rightarrow> Inl (SystemExit 0, w\<lparr> console := console w @ [NoData] \<rparr>)
      | Csv header df \<Rightarrow> Inr (clear_csv header (train_loop lib df w)))"

section \<open>The inference engine: results\<close>

lemmas coef_defs = dict_get_def base_eff_map_def fuel_per_kwh_map_def fuel_cost_map_def
  co2_factor_map_def



text \<open>
  C2, as amended. For coal, 150 MW, 20 run hours, 9000 units of current fuel use and a day
  at 30 degrees, 50 percent humidity and 1010 hPa, the recommended efficiency is the
  product 0.38 (1 - 0.002 * 5) (1 - 0.001 * 10) (1 + 0.0005 * (-3.25)), which is
  0.37183278825 (about 0.3718, not 0.3749); the recommended generation is 150 times that,
  55.7749182375 MW (about 55.77, not 56.24); recommended fuel use is generation times 1000
  times 20 times 0.35 over 1000; fuel saved is 9000 minus it; cost saved is fuel saved
  times 6000 and CO2 saved is fuel saved times 2.42.
\<close>

theorem scenario_values:
  "calc_recommended_efficiency ''coal'' 30 50 1010
     = 0.38 * (1 - 0.002 * 5) * (1 - 0.001 * 10) * (1 + 0.0005 * (- 3.25))
   \<and> predict_outputs store
       \<lparr> fuel_type = ''coal'', max_capacity_mw = 150, run_hours = 20,
         fuel_used_current = 9000, temp_C = 30, humidity = 50, pressure_hPa = 1010 \<rparr>
     = \<lparr> recommended_generation_mw = 55.7749182375,
         fuel_used_recommended = 390.4244276625,
         fuel_saved = 8609.5755723375,
         cost_saved = 51657453.434025,
         co2_saved_tonnes = 20835.17288505675,
         recommended_efficiency = 0.37183278825 \<rparr>
   \<and> (55.7749182375::real) = 150 * 0.37183278825
   \<and> (390.4244276625::real) = 55.7749182375 * 1000 * 20 * 0.35 / 1000
   \<and> (8609.5755723375::real) = 9000 - 390.4244276625
   \<and> (51657453.434025::real) = 8609.5755723375 * 6000
   \<and> (20835.17288505675::real) = 8609.5755723375 * 2.42"
  by (simp add: predict_outputs_def calc_recommended_efficiency_def coef_defs Let_def)

text \<open>
  C2 as stated fails: in the scenario the recommended efficiency is more than 0.003 away
  from 0.3749 and the recommended generation more than 0.4 MW away from 56.24.
\<close>

theorem scenario_counterexample:
  "0.003 < \<bar>recommended_efficiency (predict_outputs Map.empty
       \<lparr> fuel_type = ''coal'', max_capacity_mw = 150, run_hours = 20,
         fuel_used_current = 9000, temp_C = 30, humidity = 50, pressure_hPa = 1010 \<rparr>) - 0.3749\<bar>
   \<and> 0.4 < \<bar>recommended_generation_mw (predict_outputs Map.empty
       \<lparr> fuel_type = ''coal'', max_capacity_mw = 150, run_hours = 20,
         fuel_used_current = 9000, temp_C = 30, humidity = 50, pressure_hPa = 1010 \<rparr>) - 56.24\<bar>"
  by (simp add: predict_outputs_def calc_recommended_efficiency_def coef_defs Let_def)

text \<open>
  C3. When loading the model of the fuel type fails, the fallback predictor is used: the
  predicted current generation is 0.7 times the maximum capacity, and the engine returns
  its outputs with all six fields computed from the formulas.
\<close>

theorem missing_model_fallback:
  assumes "store (fuel_type inp) = None"
  shows "current_generation_mw store inp = 0.7 * max_capacity_mw inp
       \<and> (\<exists>gen used saved cost co2 eff.
            predict_outputs store inp =
              \<lparr> recommended_generation_mw = gen, fuel_used_recommended = used,
                fuel_saved = saved, cost_saved = cost, co2_saved_tonnes = co2,
                recommended_efficiency = eff \<rparr>
            \<and> eff = calc_recommended_efficiency (fuel_type inp) (temp_C inp) (humidity inp)
                      (pressure_hPa inp)
            \<and> gen = max_capacity_mw inp * eff
            \<and> used = gen * 1000 * run_hours inp * dict_get fuel_per_kwh_map (fuel_type inp) 0.3 / 1000
            \<and> saved = fuel_used_current inp - used
            \<and> cost = saved * dict_get fuel_cost_map (fuel_type inp) 500
            \<and> co2 = saved * dict_get co2_factor_map (fuel_type inp) 2.5)"
  using assms
  by (simp add: current_generation_mw_def load_model_def DummyModel_def predict_outputs_def Let_def)

theorem missing_model_fallback_witness:
  "current_generation_mw Map.empty
       \<lparr> fuel_type = ''coal'', max_capacity_mw = 150, run_hours = 20,
         fuel_used_current = 9000, temp_C = 30, humidity = 50, pressure_hPa = 1010 \<rparr> = 105
   \<and> recommended_efficiency (predict_outputs Map.empty
       \<lparr> fuel_type = ''coal'', max_capacity_mw = 150, run_hours = 20,
         fuel_used_current = 9000, temp_C = 30, humidity = 50, pressure_hPa = 1010 \<rparr>) = 0.37183278825"
  using missing_model_fallback [of Map.empty
       "\<lparr> fuel_type = ''coal'', max_capacity_mw = 150, run_hours = 20,
         fuel_used_current = 9000, temp_C = 30, humidity = 50, pressure_hPa = 1010 \<rparr>"]
  by (auto simp add: calc_recommended_efficiency_def coef_defs)

text \<open>
  C4. A fuel type other than coal, oil and natural gas is not rejected: the outputs are
  computed with base efficiency 0.40, fuel per kWh 0.3, fuel cost per unit 500 and CO2
  factor 2.5.
\<close>

theorem unknown_fuel_defaults:
  assumes "fuel_type inp \<notin> {''coal'', ''oil'', ''natural_gas''}"
  shows "predict_outputs store inp =
     (let eff = 0.40 * (1 - 0.002 * (temp_C inp - 25)) * (1 - 0.001 * (humidity inp - 40))
                  * (1 + 0.0005 * (pressure_hPa inp - 1013.25));
          gen = max_capacity_mw inp * eff;
          used = gen * 1000 * run_hours inp * 0.3 / 1000;
          saved = fuel_used_current inp - used
      in \<lparr> recommended_generation_mw = gen, fuel_used_recommended = used,
           fuel_saved = saved, cost_saved = saved * 500, co2_saved_tonnes = saved * 2.5,
           recommended_efficiency = eff \<rparr>)"
  using assms
  by (simp add: predict_outputs_def calc_recommended_efficiency_def coef_defs Let_def)

theorem unknown_fuel_defaults_witness:
  "predict_outputs Map.empty
       \<lparr> fuel_type = ''biomass'', max_capacity_mw = 100, run_hours = 10,
         fuel_used_current = 200, temp_C = 25, humidity = 40, pressure_hPa = 1013.25 \<rparr>
     = \<lparr> recommended_generation_mw = 40, fuel_used_recommended = 120,
         fuel_saved = 80, cost_saved = 40000, co2_saved_tonnes = 200,
         recommended_efficiency = 0.4 \<rparr>"
  using unknown_fuel_defaults [of
       "\<lparr> fuel_type = ''biomass'', max_capacity_mw = 100, run_hours = 10,
         fuel_used_current = 200, temp_C = 25, humidity = 40, pressure_hPa = 1013.25 \<rparr>" Map.empty]
  by (simp add: Let_def)



section \<open>Rounding: results\<close>







section \<open>The forecast loop: results\<close>

text \<open>With the identity for \<open>rnd\<close> the float reading is the exact one.\<close>

lemma calc_recommended_efficiency_r_exact:
  "calc_recommended_efficiency_r (\<lambda>x. x) ft t h p = calc_recommended_efficiency ft t h p"
  by (simp add: calc_recommended_efficiency_r_def calc_recommended_efficiency_def)

lemma predict_outputs_r_exact:
  "predict_outputs_r (\<lambda>x. x) store inp = predict_outputs store inp"
  by (simp add: predict_outputs_r_def predict_outputs_def calc_recommended_efficiency_r_exact)

lemma func1_loop_append:
  "func1_loop store si forecast l =
     l @ map (\<lambda>day. outcome_row day (predict_outputs_f64 store (day_input si day))) forecast"
  by (induction forecast arbitrary: l) (simp_all add: Let_def)

lemma func1_map:
  assumes "weather (location gps) 7 = Inr forecast"
  shows "func1 store gps weather si =
     Inr (map (\<lambda>day. outcome_row day (predict_outputs_f64 store (day_input si day))) forecast)"
  using assms by (simp add: func1_def func1_loop_append)

text \<open>The float reading at two days of weather, for the module's sample input.\<close>

lemma eff_cold:
  "calc_recommended_efficiency_r binary64 ''coal'' 10 50 1013.25 = 436270451302821 / 2 ^ 50"
  by code_simp

lemma gen_cold:
  "binary64 (binary64 150 * (436270451302821 / 2 ^ 50)) = 4090035480963947 / 2 ^ 46"
  by code_simp

lemma energy_cold:
  "binary64 (binary64 (4090035480963947 / 2 ^ 46 * 1000) * binary64 20) = 1162458"
  by code_simp

lemma used_cold:
  "binary64 (binary64 (1162458 * binary64 (dict_get fuel_per_kwh_map ''coal'' 0.3)) / 1000) = 7157562091686907 / 2 ^ 44"
  by code_simp

lemma saved_cold:
  "binary64 (binary64 9000 - 7157562091686907 / 2 ^ 44) = 147629015925837 / 2 ^ 34"
  by code_simp

lemma cost_cold:
  "binary64 (147629015925837 / 2 ^ 34 * binary64 (dict_get fuel_cost_map ''coal'' 500)) = 6920110121523609 / 2 ^ 27"
  by code_simp

lemma co2_cold:
  "binary64 (147629015925837 / 2 ^ 34 * binary64 (dict_get co2_factor_map ''coal'' 2.5)) = 714524437081051 / 2 ^ 35"
  by code_simp

lemma f2_generation_cold:
  "f2 (4090035480963947 / 2 ^ 46) = binary64 58.12"
  by code_simp

lemma f2_fuel_used_cold:
  "f2 (7157562091686907 / 2 ^ 44) = binary64 406.86"
  by code_simp

lemma f2_fuel_saved_cold:
  "f2 (147629015925837 / 2 ^ 34) = binary64 8593.13"
  by code_simp

lemma f2_cost_saved_cold:
  "f2 (6920110121523609 / 2 ^ 27) = binary64 51558838.2"
  by code_simp

lemma f2_co2_saved_cold:
  "f2 (714524437081051 / 2 ^ 35) = binary64 20795.39"
  by code_simp

lemma f2_efficiency_cold:
  "f2 (436270451302821 / 2 ^ 50) = binary64 0.38"
  by code_simp

lemma raw_cold:
  "predict_outputs_f64 store
     \<lparr> fuel_type = ''coal'', max_capacity_mw = 150, run_hours = 20,
       fuel_used_current = 9000, temp_C = 10, humidity = 50, pressure_hPa = 1013.25 \<rparr>
   = \<lparr> recommended_generation_mw = 4090035480963947 / 2 ^ 46,
       fuel_used_recommended = 7157562091686907 / 2 ^ 44,
       fuel_saved = 147629015925837 / 2 ^ 34,
       cost_saved = 6920110121523609 / 2 ^ 27,
       co2_saved_tonnes = 714524437081051 / 2 ^ 35,
       recommended_efficiency = 436270451302821 / 2 ^ 50 \<rparr>"
  by (simp only: predict_outputs_f64_def predict_outputs_r_def Let_def input_data.select_convs
      eff_cold gen_cold energy_cold used_cold saved_cold cost_cold co2_cold)

lemma eff_mild:
  "calc_recommended_efficiency_r binary64 ''coal'' 25 40 1013.25 = 3422735716801577 / 2 ^ 53"
  by code_simp

lemma gen_mild:
  "binary64 (binary64 150 * (3422735716801577 / 2 ^ 53)) = 57"
  by code_simp

lemma energy_mild:
  "binary64 (binary64 (57 * 1000) * binary64 20) = 1140000"
  by code_simp

lemma used_mild:
  "binary64 (binary64 (1140000 * binary64 (dict_get fuel_per_kwh_map ''coal'' 0.3)) / 1000) = 399"
  by code_simp

lemma saved_mild:
  "binary64 (binary64 9000 - 399) = 8601"
  by code_simp

lemma cost_mild:
  "binary64 (8601 * binary64 (dict_get fuel_cost_map ''coal'' 500)) = 51606000"
  by code_simp

lemma co2_mild:
  "binary64 (8601 * binary64 (dict_get co2_factor_map ''coal'' 2.5)) = 1430356050963333 / 2 ^ 36"
  by code_simp

lemma f2_generation_mild:
  "f2 (57) = 57"
  by code_simp

lemma f2_fuel_used_mild:
  "f2 (399) = 399"
  by code_simp

lemma f2_fuel_saved_mild:
  "f2 (8601) = 8601"
  by code_simp

lemma f2_cost_saved_mild:
  "f2 (51606000) = 51606000"
  by code_simp

lemma f2_co2_saved_mild:
  "f2 (1430356050963333 / 2 ^ 36) = binary64 20814.41"
  by code_simp

lemma f2_efficiency_mild:
  "f2 (3422735716801577 / 2 ^ 53) = binary64 0.38"
  by code_simp

lemma raw_mild:
  "predict_outputs_f64 store
     \<lparr> fuel_type = ''coal'', max_capacity_mw = 150, run_hours = 20,
       fuel_used_current = 9000, temp_C = 25, humidity = 40, pressure_hPa = 1013.25 \<rparr>
   = \<lparr> recommended_generation_mw = 57,
       fuel_used_recommended = 399,
       fuel_saved = 8601,
       cost_saved = 51606000,
       co2_saved_tonnes = 1430356050963333 / 2 ^ 36,
       recommended_efficiency = 3422735716801577 / 2 ^ 53 \<rparr>"
  by (simp only: predict_outputs_f64_def predict_outputs_r_def Let_def input_data.select_convs
      eff_mild gen_mild energy_mild used_mild saved_mild cost_mild co2_mild)

lemma row_cold:
  "outcome_row
     \<lparr> date = ''2025-01-15'', day_temp_C = 10, day_humidity = 50,
        day_pressure_hPa = 1013.25 \<rparr>
     (predict_outputs_f64 store (day_input sample_input0
     \<lparr> date = ''2025-01-15'', day_temp_C = 10, day_humidity = 50,
        day_pressure_hPa = 1013.25 \<rparr>))
   = \<lparr> out_date = ''2025-01-15'', out_generation = binary64 58.12,
        out_fuel_used = binary64 406.86, out_fuel_saved = binary64 8593.13,
        out_cost_saved = binary64 51558838.2, out_co2_saved = binary64 20795.39,
        out_efficiency = binary64 0.38 \<rparr>"
  by (simp only: day_input_def sample_input0_def sample_input.select_convs
      forecast_day.select_convs raw_cold outcome_row_def outputs.select_convs
      f2_generation_cold f2_fuel_used_cold f2_fuel_saved_cold f2_cost_saved_cold
      f2_co2_saved_cold f2_efficiency_cold)

lemma row_mild:
  "outcome_row
     \<lparr> date = ''2025-06-02'', day_temp_C = 25, day_humidity = 40,
        day_pressure_hPa = 1013.25 \<rparr>
     (predict_outputs_f64 store (day_input sample_input0
     \<lparr> date = ''2025-06-02'', day_temp_C = 25, day_humidity = 40,
        day_pressure_hPa = 1013.25 \<rparr>))
   = \<lparr> out_date = ''2025-06-02'', out_generation = 57, out_fuel_used = 399,
        out_fuel_saved = 8601, out_cost_saved = 51606000,
        out_co2_saved = binary64 20814.41, out_efficiency = binary64 0.38 \<rparr>"
  by (simp only: day_input_def sample_input0_def sample_input.select_convs
      forecast_day.select_convs raw_mild outcome_row_def outputs.select_convs
      f2_generation_mild f2_fuel_used_mild f2_fuel_saved_mild f2_cost_saved_mild
      f2_co2_saved_mild f2_efficiency_mild)














text \<open>
  C8. When the weather supplier returns a sequence of days, the forecast returns one row
  per day, in the order of the days; the row of a day is built from the engine's outputs
  on that day's temperature, humidity and pressure and on the caller's fuel type,
  capacity, run hours and current fuel use, and depends on no other day.
\<close>

theorem forecast_one_outcome_per_day:
  assumes "weather (location gps) 7 = Inr forecast"
  shows "\<exists>l. func1 store gps weather si = Inr l
       \<and> length l = length forecast
       \<and> l = map (\<lambda>day. outcome_row day (predict_outputs_f64 store
               \<lparr> fuel_type = si_fuel_type si, max_capacity_mw = si_max_capacity_mw si,
                 run_hours = si_run_hours si, fuel_used_current = si_fuel_used_current si,
                 temp_C = day_temp_C day, humidity = day_humidity day,
                 pressure_hPa = day_pressure_hPa day \<rparr>)) forecast
       \<and> (\<forall>i<length forecast.
            out_date (l ! i) = date (forecast ! i)
          \<and> l ! i = outcome_row (forecast ! i) (predict_outputs_f64 store
               \<lparr> fuel_type = si_fuel_type si, max_capacity_mw = si_max_capacity_mw si,
                 run_hours = si_run_hours si, fuel_used_current = si_fuel_used_current si,
                 temp_C = day_temp_C (forecast ! i), humidity = day_humidity (forecast ! i),
                 pressure_hPa = day_pressure_hPa (forecast ! i) \<rparr>))"
  using assms by (simp add: func1_map day_input_def outcome_row_def)

theorem forecast_one_outcome_per_day_witness:
  "func1 Map.empty (Inl RuntimeError)
     (\<lambda>loc days. Inr [
     \<lparr> date = ''2025-01-15'', day_temp_C = 10, day_humidity = 50,
        day_pressure_hPa = 1013.25 \<rparr>,
     \<lparr> date = ''2025-06-02'', day_temp_C = 25, day_humidity = 40,
        day_pressure_hPa = 1013.25 \<rparr>])
     sample_input0
   = Inr [
     \<lparr> out_date = ''2025-01-15'', out_generation = binary64 58.12,
        out_fuel_used = binary64 406.86, out_fuel_saved = binary64 8593.13,
        out_cost_saved = binary64 51558838.2, out_co2_saved = binary64 20795.39,
        out_efficiency = binary64 0.38 \<rparr>,
     \<lparr> out_date = ''2025-06-02'', out_generation = 57, out_fuel_used = 399,
        out_fuel_saved = 8601, out_cost_saved = 51606000,
        out_co2_saved = binary64 20814.41, out_efficiency = binary64 0.38 \<rparr>]"
proof -
  let ?cold = "\<lparr> date = ''2025-01-15'', day_temp_C = 10, day_humidity = 50,
        day_pressure_hPa = 1013.25 \<rparr>"
  let ?mild = "\<lparr> date = ''2025-06-02'', day_temp_C = 25, day_humidity = 40,
        day_pressure_hPa = 1013.25 \<rparr>"
  let ?weather = "\<lambda>(loc :: real \<times> real) (days :: nat).
      (Inr [?cold, ?mild] :: py_error + forecast_day list)"
  from forecast_one_outcome_per_day
    [of ?weather "Inl RuntimeError" "[?cold, ?mild]" Map.empty sample_input0, OF refl]
  have "func1 Map.empty (Inl RuntimeError) ?weather sample_input0
      = Inr (map (\<lambda>day. outcome_row day (predict_outputs_f64 Map.empty
               \<lparr> fuel_type = si_fuel_type sample_input0,
                 max_capacity_mw = si_max_capacity_mw sample_input0,
                 run_hours = si_run_hours sample_input0,
                 fuel_used_current = si_fuel_used_current sample_input0,
                 temp_C = day_temp_C day, humidity = day_humidity day,
                 pressure_hPa = day_pressure_hPa day \<rparr>)) [?cold, ?mild])"
    by blast
  also have "\<dots> = Inr [outcome_row ?cold (predict_outputs_f64 Map.empty
                        (day_input sample_input0 ?cold)),
                      outcome_row ?mild (predict_outputs_f64 Map.empty
                        (day_input sample_input0 ?mild))]"
    by (simp only: list.map day_input_def)
  also have "\<dots> = Inr [
     \<lparr> out_date = ''2025-01-15'', out_generation = binary64 58.12,
        out_fuel_used = binary64 406.86, out_fuel_saved = binary64 8593.13,
        out_cost_saved = binary64 51558838.2, out_co2_saved = binary64 20795.39,
        out_efficiency = binary64 0.38 \<rparr>,
     \<lparr> out_date = ''2025-06-02'', out_generation = 57, out_fuel_used = 399,
        out_fuel_saved = 8601, out_cost_saved = 51606000,
        out_co2_saved = binary64 20814.41, out_efficiency = binary64 0.38 \<rparr>]"
    by (simp only: row_cold row_mild)
  finally show ?thesis .
qed

section \<open>The generator: results\<close>

lemma fuel_types_ranges:
  assumes "(ft, config) \<in> set fuel_types"
  shows "fst (efficiency_range config) \<le> snd (efficiency_range config)"
  using assms
  by (auto simp: fuel_types_def coal_config_def oil_config_def natural_gas_config_def)

lemma clipped_efficiency_eq:
  "\<exists>e. clipped_efficiency config t h p hours days load_factor
        = max (fst (efficiency_range config)) (min (snd (efficiency_range config)) e)"
  by (auto simp add: clipped_efficiency_def Let_def split: prod.splits)

lemma fuel_types_table:
  assumes "(ft, config) \<in> set fuel_types"
  shows "ft = ''coal'' \<and> efficiency_range config = (0.32, 0.46)
       \<or> ft = ''oil'' \<and> efficiency_range config = (0.36, 0.42)
       \<or> ft = ''natural_gas'' \<and> efficiency_range config = (0.40, 0.60)"
  using assms
  by (auto simp: fuel_types_def coal_config_def oil_config_def natural_gas_config_def)

text \<open>
  C1, as amended. For each fuel profile of the table (coal 0.32 to 0.46, oil 0.36 to
  0.42, natural gas 0.40 to 0.60), the efficiency that \<^verbatim>\<open>calculate_efficiency\<close> holds
  after its clipping step, before the final noise factor and the rounding, lies within
  the profile's efficiency range, whatever the temperature, humidity, pressure, run
  hours, timestamp and load factor. The inference engine's recommended efficiency is not
  clamped: it is the base efficiency (0.38 for coal, 0.42 for oil, 0.50 for natural gas,
  0.40 for any other fuel type) times the three linear weather factors.
\<close>

theorem efficiency_clipped_before_noise:
  assumes "(ft, config) \<in> set fuel_types"
  shows "fst (efficiency_range config)
           \<le> clipped_efficiency config t h p hours days load_factor
       \<and> clipped_efficiency config t h p hours days load_factor
           \<le> snd (efficiency_range config)
       \<and> (ft = ''coal'' \<and> efficiency_range config = (0.32, 0.46)
          \<or> ft = ''oil'' \<and> efficiency_range config = (0.36, 0.42)
          \<or> ft = ''natural_gas'' \<and> efficiency_range config = (0.40, 0.60))
       \<and> calc_recommended_efficiency ''coal'' t' h' p'
           = 0.38 * (1 - 0.002 * (t' - 25)) * (1 - 0.001 * (h' - 40))
               * (1 + 0.0005 * (p' - 1013.25))
       \<and> calc_recommended_efficiency ''oil'' t' h' p'
           = 0.42 * (1 - 0.002 * (t' - 25)) * (1 - 0.001 * (h' - 40))
               * (1 + 0.0005 * (p' - 1013.25))
       \<and> calc_recommended_efficiency ''natural_gas'' t' h' p'
           = 0.50 * (1 - 0.002 * (t' - 25)) * (1 - 0.001 * (h' - 40))
               * (1 + 0.0005 * (p' - 1013.25))
       \<and> (ft' \<notin> {''coal'', ''oil'', ''natural_gas''} \<longrightarrow>
            calc_recommended_efficiency ft' t' h' p'
              = 0.40 * (1 - 0.002 * (t' - 25)) * (1 - 0.001 * (h' - 40))
                  * (1 + 0.0005 * (p' - 1013.25)))"
proof -
  obtain e where e: "clipped_efficiency config t h p hours days load_factor
        = max (fst (efficiency_range config)) (min (snd (efficiency_range config)) e)"
    using clipped_efficiency_eq by blast
  have le: "fst (efficiency_range config) \<le> snd (efficiency_range config)"
    using assms by (rule fuel_types_ranges)
  have lo: "fst (efficiency_range config)
           \<le> clipped_efficiency config t h p hours days load_factor"
    unfolding e by simp
  have hi: "clipped_efficiency config t h p hours days load_factor
           \<le> snd (efficiency_range config)"
    unfolding e using le by simp
  note tb = fuel_types_table [OF assms]
  have coal: "calc_recommended_efficiency ''coal'' t' h' p'
           = 0.38 * (1 - 0.002 * (t' - 25)) * (1 - 0.001 * (h' - 40))
               * (1 + 0.0005 * (p' - 1013.25))"
    by (simp add: calc_recommended_efficiency_def coef_defs)
  have oil: "calc_recommended_efficiency ''oil'' t' h' p'
           = 0.42 * (1 - 0.002 * (t' - 25)) * (1 - 0.001 * (h' - 40))
               * (1 + 0.0005 * (p' - 1013.25))"
    by (simp add: calc_recommended_efficiency_def coef_defs)
  have gas: "calc_recommended_efficiency ''natural_gas'' t' h' p'
           = 0.50 * (1 - 0.002 * (t' - 25)) * (1 - 0.001 * (h' - 40))
               * (1 + 0.0005 * (p' - 1013.25))"
    by (simp add: calc_recommended_efficiency_def coef_defs)
  have other: "ft' \<notin> {''coal'', ''oil'', ''natural_gas''} \<longrightarrow>
            calc_recommended_efficiency ft' t' h' p'
              = 0.40 * (1 - 0.002 * (t' - 25)) * (1 - 0.001 * (h' - 40))
                  * (1 + 0.0005 * (p' - 1013.25))"
    by (simp add: calc_recommended_efficiency_def coef_defs)
  from lo hi tb coal oil gas other show ?thesis by blast
qed

theorem efficiency_clipped_before_noise_witness:
  "clipped_efficiency coal_config 35 70 1013.25 20 2499 0.6 = 0.32
   \<and> efficiency_range coal_config = (0.32, 0.46)
   \<and> calc_recommended_efficiency ''oil'' 20 40 1013.25 = 0.4242
   \<and> calc_recommended_efficiency ''biomass'' 20 40 1013.25 = 0.404"
  using efficiency_clipped_before_noise
    [of "''coal''" coal_config 35 70 "1013.25" 20 2499 "0.6" 20 40 "1013.25" "''biomass''"]
  by (simp add: fuel_types_def clipped_efficiency_def coal_config_def Let_def)

text \<open>
  C1 as stated fails. For coal on a hot, humid day at 60 percent load, 2499 days after
  2020-01-01, the clipped efficiency is the lower bound 0.32, and with the noise factor
  0.995 the generator returns 0.3184, below the range. For oil at 20 degrees the inference
  engine recommends 0.4242, above the oil profile's upper bound 0.42.
\<close>

theorem efficiency_range_counterexample:
  "calculate_efficiency coal_config 35 70 1013.25 20 2499 0.6 0.995 = 0.3184
   \<and> 0.3184 < fst (efficiency_range coal_config)
   \<and> calc_recommended_efficiency ''oil'' 20 40 1013.25 = 0.4242
   \<and> snd (efficiency_range oil_config) < 0.4242"
  by (simp add: calculate_efficiency_def clipped_efficiency_def coal_config_def oil_config_def
      py_round_def round_half_even_def calc_recommended_efficiency_def coef_defs Let_def)



lemma generate_row_defined:
  assumes "ft \<in> {''coal'', ''oil'', ''natural_gas''}"
  shows "\<exists>row. generate_row ft config d = Some row"
  using assms unfolding generate_row_def Let_def fuel_specific_def
  by auto








text \<open>Each pass of the outer loop contributes one row per fuel type of the table.\<close>

lemma generate_pass_rows:
  "List.map_filter (\<lambda>(ft, config). generate_row ft config (draw ft)) fuel_types
     = [the (generate_row ''coal'' coal_config (draw ''coal'')),
        the (generate_row ''oil'' oil_config (draw ''oil'')),
        the (generate_row ''natural_gas'' natural_gas_config (draw ''natural_gas''))]"
proof -
  obtain r1 where r1: "generate_row ''coal'' coal_config (draw ''coal'') = Some r1"
    using generate_row_defined [of "''coal''"] by auto
  obtain r2 where r2: "generate_row ''oil'' oil_config (draw ''oil'') = Some r2"
    using generate_row_defined [of "''oil''"] by auto
  obtain r3 where r3:
    "generate_row ''natural_gas'' natural_gas_config (draw ''natural_gas'') = Some r3"
    using generate_row_defined [of "''natural_gas''"] by auto
  show ?thesis by (simp add: fuel_types_def r1 r2 r3)
qed

lemma length_generate_realistic_data:
  "length (generate_realistic_data draw num_samples) = 3 * num_samples"
  unfolding generate_realistic_data_def
  by (induction num_samples) (simp_all add: generate_pass_rows)

section \<open>The training run: results\<close>

lemma set_unique: "set (unique xs) = set xs"
  by (induction xs rule: unique.induct) auto

lemma distinct_unique: "distinct (unique xs)"
  by (induction xs rule: unique.induct) (auto simp: set_unique)

lemma train_fuel_csv: "csv (train_fuel lib df w fuel) = csv w"
  by (simp add: train_fuel_def Let_def split: prod.splits)

lemma train_fuel_other:
  "g \<noteq> fuel \<Longrightarrow> models (train_fuel lib df w fuel) g = models w g"
  by (simp add: train_fuel_def Let_def split: prod.splits)

lemma train_fuel_console:
  "\<exists>m. console (train_fuel lib df w fuel) = console w @ [m]"
  by (simp add: train_fuel_def Let_def split: prod.splits)

lemma train_fuel_small:
  assumes "length (filter (\<lambda>r. row_fuel_type r = fuel) df) < 5"
  shows "models (train_fuel lib df w fuel) = models w"
    and "console (train_fuel lib df w fuel)
           = console w @ [Skipping fuel (length (filter (\<lambda>r. row_fuel_type r = fuel) df))]"
  using assms by (simp_all add: train_fuel_def Let_def)

lemma train_fuel_large:
  assumes "5 \<le> length (filter (\<lambda>r. row_fuel_type r = fuel) df)"
  shows "models (train_fuel lib df w fuel) fuel =
     Some (fit lib rf_constructor
       (fst (train_test_split lib
          (map (\<lambda>r. (FEATURES r, row_current_generation_mw r))
             (filter (\<lambda>r. row_fuel_type r = fuel) df)) 0.2 42)))"
  using assms by (simp add: train_fuel_def Let_def split: prod.splits)

lemma foldl_train_csv: "csv (foldl (train_fuel lib df) w fuels) = csv w"
  by (induction fuels arbitrary: w) (simp_all add: train_fuel_csv)

lemma foldl_train_other:
  "g \<notin> set fuels \<Longrightarrow> models (foldl (train_fuel lib df) w fuels) g = models w g"
  by (induction fuels arbitrary: w) (simp_all add: train_fuel_other)

lemma foldl_train_console_mono:
  "set (console w) \<subseteq> set (console (foldl (train_fuel lib df) w fuels))"
proof (induction fuels arbitrary: w)
  case Nil
  show ?case by simp
next
  case (Cons f fuels)
  obtain m where "console (train_fuel lib df w f) = console w @ [m]"
    using train_fuel_console by blast
  then have "set (console w) \<subseteq> set (console (train_fuel lib df w f))" by auto
  with Cons.IH [of "train_fuel lib df w f"] show ?case by auto
qed

lemma foldl_train_small:
  assumes "distinct fuels" and "fuel \<in> set fuels"
    and "length (filter (\<lambda>r. row_fuel_type r = fuel) df) < 5"
  shows "models (foldl (train_fuel lib df) w fuels) fuel = models w fuel
       \<and> Skipping fuel (length (filter (\<lambda>r. row_fuel_type r = fuel) df))
            \<in> set (console (foldl (train_fuel lib df) w fuels))"
  using assms
proof (induction fuels arbitrary: w)
  case Nil
  then show ?case by simp
next
  case (Cons f fuels)
  show ?case
  proof (cases "f = fuel")
    case True
    with Cons.prems have notin: "fuel \<notin> set fuels" by simp
    have m: "models (foldl (train_fuel lib df) (train_fuel lib df w fuel) fuels) fuel
               = models w fuel"
      using notin Cons.prems(3) by (simp add: foldl_train_other train_fuel_small(1))
    have "Skipping fuel (length (filter (\<lambda>r. row_fuel_type r = fuel) df))
            \<in> set (console (train_fuel lib df w fuel))"
      using Cons.prems(3) by (simp add: train_fuel_small(2))
    then have c: "Skipping fuel (length (filter (\<lambda>r. row_fuel_type r = fuel) df))
            \<in> set (console (foldl (train_fuel lib df) (train_fuel lib df w fuel) fuels))"
      using foldl_train_console_mono by blast
    from m c True show ?thesis by simp
  next
    case False
    with Cons.prems have "distinct fuels" "fuel \<in> set fuels" by auto
    from Cons.IH [OF this Cons.prems(3), of "train_fuel lib df w f"] False
    show ?thesis by (simp add: train_fuel_other)
  qed
qed

lemma foldl_train_large:
  assumes "distinct fuels" and "fuel \<in> set fuels"
    and "5 \<le> length (filter (\<lambda>r. row_fuel_type r = fuel) df)"
  shows "models (foldl (train_fuel lib df) w fuels) fuel =
     Some (fit lib rf_constructor
       (fst (train_test_split lib
          (map (\<lambda>r. (FEATURES r, row_current_generation_mw r))
             (filter (\<lambda>r. row_fuel_type r = fuel) df)) 0.2 42)))"
  using assms
proof (induction fuels arbitrary: w)
  case Nil
  then show ?case by simp
next
  case (Cons f fuels)
  show ?case
  proof (cases "f = fuel")
    case True
    with Cons.prems have notin: "fuel \<notin> set fuels" by simp
    show ?thesis
      using notin True train_fuel_large [OF Cons.prems(3), of lib w]
      by (simp add: foldl_train_other)
  next
    case False
    with Cons.prems have "distinct fuels" "fuel \<in> set fuels" by auto
    from Cons.IH [OF this Cons.prems(3), of "train_fuel lib df w f"]
    show ?thesis by simp
  qed
qed

text \<open>
  C6. A training run on a sample store with a header ends normally. Every fuel type
  present with fewer than 5 samples is skipped with a printed warning and its entry in the
  model store is left as it was; every fuel type with at least 5 samples gets the model
  fitted with 200 estimators, maximal depth 12 and random state 42 on the train part of
  the split with test size 0.2 and random state 42, stored under the fuel type.
\<close>

theorem training_skips_small_fuels:
  assumes "csv w = Csv header df"
  shows "\<exists>w'. train lib w = Inr w'
     \<and> (\<forall>fuel \<in> set (map row_fuel_type df).
          (length (filter (\<lambda>r. row_fuel_type r = fuel) df) < 5 \<longrightarrow>
             models w' fuel = models w fuel
           \<and> Skipping fuel (length (filter (\<lambda>r. row_fuel_type r = fuel) df))
                \<in> set (console w'))
        \<and> (5 \<le> length (filter (\<lambda>r. row_fuel_type r = fuel) df) \<longrightarrow>
             models w' fuel =
               Some (fit lib \<lparr> n_estimators = 200, random_state = 42, n_jobs = - 1,
                              max_depth = 12 \<rparr>
                 (fst (train_test_split lib
                    (map (\<lambda>r. (FEATURES r, row_current_generation_mw r))
                       (filter (\<lambda>r. row_fuel_type r = fuel) df)) 0.2 42)))))"
proof -
  let ?fuels = "unique (map row_fuel_type df)"
  let ?w1 = "train_loop lib df w"
  have tr: "train lib w = Inr (clear_csv header ?w1)"
    using assms by (simp add: train_def)
  have m: "models (clear_csv header ?w1) = models ?w1"
    by (simp add: clear_csv_def)
  have c: "set (console ?w1) \<subseteq> set (console (clear_csv header ?w1))"
    by (auto simp add: clear_csv_def)
  have d: "distinct ?fuels" by (rule distinct_unique)
  have "\<forall>fuel \<in> set (map row_fuel_type df).
          (length (filter (\<lambda>r. row_fuel_type r = fuel) df) < 5 \<longrightarrow>
             models (clear_csv header ?w1) fuel = models w fuel
           \<and> Skipping fuel (length (filter (\<lambda>r. row_fuel_type r = fuel) df))
                \<in> set (console (clear_csv header ?w1)))
        \<and> (5 \<le> length (filter (\<lambda>r. row_fuel_type r = fuel) df) \<longrightarrow>
             models (clear_csv header ?w1) fuel =
               Some (fit lib \<lparr> n_estimators = 200, random_state = 42, n_jobs = - 1,
                              max_depth = 12 \<rparr>
                 (fst (train_test_split lib
                    (map (\<lambda>r. (FEATURES r, row_current_generation_mw r))
                       (filter (\<lambda>r. row_fuel_type r = fuel) df)) 0.2 42))))"
  proof (intro ballI conjI impI)
    fix fuel
    assume "fuel \<in> set (map row_fuel_type df)"
    then have mem: "fuel \<in> set ?fuels" by (simp only: set_unique)
    {
      assume small: "length (filter (\<lambda>r. row_fuel_type r = fuel) df) < 5"
      from foldl_train_small [OF d mem small, of lib w]
      show "models (clear_csv header ?w1) fuel = models w fuel"
        by (simp add: clear_csv_def train_loop_def)
      from foldl_train_small [OF d mem small, of lib w] c
      show "Skipping fuel (length (filter (\<lambda>r. row_fuel_type r = fuel) df))
                \<in> set (console (clear_csv header ?w1))"
        by (auto simp add: clear_csv_def train_loop_def)
    }
    {
      assume large: "5 \<le> length (filter (\<lambda>r. row_fuel_type r = fuel) df)"
      from foldl_train_large [OF d mem large, of lib w]
      show "models (clear_csv header ?w1) fuel =
               Some (fit lib \<lparr> n_estimators = 200, random_state = 42, n_jobs = - 1,
                              max_depth = 12 \<rparr>
                 (fst (train_test_split lib
                    (map (\<lambda>r. (FEATURES r, row_current_generation_mw r))
                       (filter (\<lambda>r. row_fuel_type r = fuel) df)) 0.2 42)))"
        by (simp add: clear_csv_def train_loop_def rf_constructor_def)
    }
  qed
  with tr show ?thesis by blast
qed

theorem training_skips_small_fuels_witness:
  "(let coal_row = \<lparr> row_timestamp = ''2025-06-01 12:00:00'', row_fuel_type = ''coal'',
              row_max_capacity_mw = 500, row_current_generation_mw = 400,
              row_run_hours = 20, row_temp_C = 25, row_humidity = 40,
              row_pressure_hPa = 1013.25, row_predicted_efficiency = 0.3871,
              row_recommended_generation_mw = 193.55, row_adjustment_pct = - 41.29,
              row_fuel_per_kwh = 0.3174, row_fuel_unit = ''ton'',
              row_heat_rate_kcal_per_kwh = 2221.65, row_fuel_used_current = 2539.0265,
              row_fuel_used_recommended = 1228.5714, row_fuel_saved = 1310.455,
              row_fuel_cost_per_unit = 6000, row_cost_saved = 7862730.19,
              row_co2_saved_tonnes = 3171.3012 \<rparr>;
        oil_row = coal_row\<lparr> row_fuel_type := ''oil'' \<rparr>;
        lib = \<lparr> train_test_split = (\<lambda>rows test_size seed. (take 4 rows, drop 4 rows)),
                fit = (\<lambda>params rows X. 400),
                r2_score = (\<lambda>y_test y_pred. 1),
                mean_absolute_error = (\<lambda>y_test y_pred. 0) \<rparr>;
        w = \<lparr> csv = Csv HEADERS [coal_row, coal_row, coal_row, coal_row, coal_row, oil_row, oil_row, oil_row,
                oil_row], models = Map.empty,
              console = [] \<rparr>
    in \<exists>w'. train lib w = Inr w'
         \<and> models w' ''oil'' = None
         \<and> Skipping ''oil'' 4 \<in> set (console w')
         \<and> (\<exists>m. models w' ''coal'' = Some m \<and> m [] = 400))"
proof -
  let ?c = "\<lparr> row_timestamp = ''2025-06-01 12:00:00'', row_fuel_type = ''coal'',
              row_max_capacity_mw = 500, row_current_generation_mw = 400,
              row_run_hours = 20, row_temp_C = 25, row_humidity = 40,
              row_pressure_hPa = 1013.25, row_predicted_efficiency = 0.3871,
              row_recommended_generation_mw = 193.55, row_adjustment_pct = - 41.29,
              row_fuel_per_kwh = 0.3174, row_fuel_unit = ''ton'',
              row_heat_rate_kcal_per_kwh = 2221.65, row_fuel_used_current = 2539.0265,
              row_fuel_used_recommended = 1228.5714, row_fuel_saved = 1310.455,
              row_fuel_cost_per_unit = 6000, row_cost_saved = 7862730.19,
              row_co2_saved_tonnes = 3171.3012 \<rparr>"
  let ?o = "?c\<lparr> row_fuel_type := ''oil'' \<rparr>"
  let ?lib = "\<lparr> train_test_split = (\<lambda>rows test_size seed. (take 4 rows, drop 4 rows)),
                fit = (\<lambda>params rows X. 400),
                r2_score = (\<lambda>y_test y_pred. 1),
                mean_absolute_error = (\<lambda>y_test y_pred. 0) \<rparr>"
  let ?df = "[?c, ?c, ?c, ?c, ?c, ?o, ?o, ?o, ?o]"
  let ?w = "\<lparr> csv = Csv HEADERS ?df, models = Map.empty, console = [] \<rparr>"
  have h: "csv ?w = Csv HEADERS ?df" by simp
  from training_skips_small_fuels [OF h, of ?lib]
  obtain w' where tr: "train ?lib ?w = Inr w'"
    and each: "\<forall>fuel \<in> set (map row_fuel_type ?df).
          (length (filter (\<lambda>r. row_fuel_type r = fuel) ?df) < 5 \<longrightarrow>
             models w' fuel = models ?w fuel
           \<and> Skipping fuel (length (filter (\<lambda>r. row_fuel_type r = fuel) ?df))
                \<in> set (console w'))
        \<and> (5 \<le> length (filter (\<lambda>r. row_fuel_type r = fuel) ?df) \<longrightarrow>
             models w' fuel =
               Some (fit ?lib \<lparr> n_estimators = 200, random_state = 42, n_jobs = - 1,
                              max_depth = 12 \<rparr>
                 (fst (train_test_split ?lib
                    (map (\<lambda>r. (FEATURES r, row_current_generation_mw r))
                       (filter (\<lambda>r. row_fuel_type r = fuel) ?df)) 0.2 42))))"
    by blast
  have oil_in: "''oil'' \<in> set (map row_fuel_type ?df)" by simp
  have coal_in: "''coal'' \<in> set (map row_fuel_type ?df)" by simp
  have oil_n: "length (filter (\<lambda>r. row_fuel_type r = ''oil'') ?df) = 4" by simp
  have coal_n: "length (filter (\<lambda>r. row_fuel_type r = ''coal'') ?df) = 5" by simp
  from each oil_in
  have "length (filter (\<lambda>r. row_fuel_type r = ''oil'') ?df) < 5 \<longrightarrow>
             models w' ''oil'' = models ?w ''oil''
           \<and> Skipping ''oil'' (length (filter (\<lambda>r. row_fuel_type r = ''oil'') ?df))
                \<in> set (console w')"
    by blast
  then have oil: "models w' ''oil'' = None \<and> Skipping ''oil'' 4 \<in> set (console w')"
    unfolding oil_n by simp
  from each coal_in
  have "5 \<le> length (filter (\<lambda>r. row_fuel_type r = ''coal'') ?df) \<longrightarrow>
             models w' ''coal'' =
               Some (fit ?lib \<lparr> n_estimators = 200, random_state = 42, n_jobs = - 1,
                              max_depth = 12 \<rparr>
                 (fst (train_test_split ?lib
                    (map (\<lambda>r. (FEATURES r, row_current_generation_mw r))
                       (filter (\<lambda>r. row_fuel_type r = ''coal'') ?df)) 0.2 42)))"
    by blast
  then have coal: "\<exists>m. models w' ''coal'' = Some m \<and> m [] = 400"
    unfolding coal_n by simp
  from tr oil coal show ?thesis unfolding Let_def by blast
qed

text \<open>
  C7. After a training run the sample store holds its header and no data row. The loop
  itself leaves the store as it was, and the models after the truncation are the models
  the loop produced.
\<close>

theorem store_truncated_after_training:
  assumes "csv w = Csv header df"
  shows "\<exists>w'. train lib w = Inr w'
     \<and> csv w' = Csv header []
     \<and> csv (train_loop lib df w) = Csv header df
     \<and> models w' = models (train_loop lib df w)"
  using assms
  by (simp add: train_def clear_csv_def train_loop_def foldl_train_csv)

theorem store_truncated_after_training_witness:
  "(let coal_row = \<lparr> row_timestamp = ''2025-06-01 12:00:00'', row_fuel_type = ''coal'',
              row_max_capacity_mw = 500, row_current_generation_mw = 400,
              row_run_hours = 20, row_temp_C = 25, row_humidity = 40,
              row_pressure_hPa = 1013.25, row_predicted_efficiency = 0.3871,
              row_recommended_generation_mw = 193.55, row_adjustment_pct = - 41.29,
              row_fuel_per_kwh = 0.3174, row_fuel_unit = ''ton'',
              row_heat_rate_kcal_per_kwh = 2221.65, row_fuel_used_current = 2539.0265,
              row_fuel_used_recommended = 1228.5714, row_fuel_saved = 1310.455,
              row_fuel_cost_per_unit = 6000, row_cost_saved = 7862730.19,
              row_co2_saved_tonnes = 3171.3012 \<rparr>;
        lib = \<lparr> train_test_split = (\<lambda>rows test_size seed. (take 4 rows, drop 4 rows)),
                fit = (\<lambda>params rows X. 400),
                r2_score = (\<lambda>y_test y_pred. 1),
                mean_absolute_error = (\<lambda>y_test y_pred. 0) \<rparr>;
        w = \<lparr> csv = Csv HEADERS [coal_row], models = Map.empty, console = [] \<rparr>
    in \<exists>w'. train lib w = Inr w'
         \<and> csv w' = Csv HEADERS []
         \<and> models w' ''coal'' = None
         \<and> console w' = [Skipping ''coal'' 1, Cleared])"
proof -
  let ?c = "\<lparr> row_timestamp = ''2025-06-01 12:00:00'', row_fuel_type = ''coal'',
              row_max_capacity_mw = 500, row_current_generation_mw = 400,
              row_run_hours = 20, row_temp_C = 25, row_humidity = 40,
              row_pressure_hPa = 1013.25, row_predicted_efficiency = 0.3871,
              row_recommended_generation_mw = 193.55, row_adjustment_pct = - 41.29,
              row_fuel_per_kwh = 0.3174, row_fuel_unit = ''ton'',
              row_heat_rate_kcal_per_kwh = 2221.65, row_fuel_used_current = 2539.0265,
              row_fuel_used_recommended = 1228.5714, row_fuel_saved = 1310.455,
              row_fuel_cost_per_unit = 6000, row_cost_saved = 7862730.19,
              row_co2_saved_tonnes = 3171.3012 \<rparr>"
  let ?lib = "\<lparr> train_test_split = (\<lambda>rows test_size seed. (take 4 rows, drop 4 rows)),
                fit = (\<lambda>params rows X. 400),
                r2_score = (\<lambda>y_test y_pred. 1),
                mean_absolute_error = (\<lambda>y_test y_pred. 0) \<rparr>"
  let ?w = "\<lparr> csv = Csv HEADERS [?c], models = Map.empty, console = [] \<rparr>"
  have h: "csv ?w = Csv HEADERS [?c]" by simp
  from store_truncated_after_training [OF h, of ?lib]
  obtain w' where tr: "train ?lib ?w = Inr w'" and cleared: "csv w' = Csv HEADERS []"
    and same: "models w' = models (train_loop ?lib [?c] ?w)"
    by blast
  have m: "models (train_loop ?lib [?c] ?w) ''coal'' = None"
    by (simp add: train_loop_def train_fuel_def)
  have "train ?lib ?w = Inr (clear_csv HEADERS (train_loop ?lib [?c] ?w))"
    by (simp add: train_def)
  with tr have "console w' = console (clear_csv HEADERS (train_loop ?lib [?c] ?w))"
    by simp
  then have con: "console w' = [Skipping ''coal'' 1, Cleared]"
    by (simp add: clear_csv_def train_loop_def train_fuel_def)
  from tr cleared same m con show ?thesis unfolding Let_def by simp
qed

end
